theory Spec2Isabelle
  imports Main
begin

section \<open>The RVI node library (rvi.c): data structures\<close>

text \<open>
  The model follows \<^verbatim>\<open>src/src/rvi.c\<close>. A C \<^verbatim>\<open>int\<close> is an \<^typ>\<open>int\<close>: the only
  arithmetic of the file is the subtraction of two file descriptors in the comparison
  functions, and file descriptors stored in the indexes are non-negative
  (\<^verbatim>\<open>rvi_remote_create\<close> and \<^verbatim>\<open>rvi_service_create\<close> refuse negative ones), so the
  difference stays inside the range of a 32-bit integer. A pointer that may be
  \<^verbatim>\<open>NULL\<close> is an \<^typ>\<open>'a option\<close>, with \<^term>\<open>None\<close> for \<^verbatim>\<open>NULL\<close>. Opaque
  objects of other libraries (an OpenSSL BIO chain, an SSL context, a callback, a service
  data block) are represented by their addresses.
\<close>

type_synonym BIO = nat
type_synonym SSL_CTX = nat
type_synonym regex_t = string
type_synonym json_t = string
type_synonym rvi_callback_t = nat

text \<open>\<^verbatim>\<open>struct rvi_remote_t\<close> (lines 82-93): the data of one connection.\<close>

record rvi_remote_t =
  fd :: int
  right_to_register :: "regex_t option"
  right_to_invoke :: "regex_t option"
  buf :: "string option"
  sbio :: "BIO option"

text \<open>\<^verbatim>\<open>struct rvi_service_t\<close> (lines 96-107): the data of one service.\<close>

record rvi_service_t =
  name :: "string option"
  may_register :: "int list option"
  may_invoke :: "int list option"
  registrant :: int
  callback :: "rvi_callback_t option"

text \<open>
  \<^verbatim>\<open>struct rvi_context_t\<close> (lines 42-79). The three indexes are B-trees in the source;
  here each is the list of the elements it holds (see the next section). The last two
  fields are \<^verbatim>\<open>right_to_register\<close> and \<^verbatim>\<open>right_to_invoke\<close> in the source; they carry
  the prefix \<^verbatim>\<open>own_\<close> here to keep them apart from the fields of a remote.
\<close>

record rvi_context_t =
  remote_idx :: "rvi_remote_t list"
  service_name_idx :: "rvi_service_t list"
  service_reg_idx :: "rvi_service_t list"
  cadir :: "string option"
  creddir :: "string option"
  certfile :: "string option"
  keyfile :: "string option"
  cafile :: "string option"
  cred :: "string option list"
  ssl_ctx :: "SSL_CTX option"
  own_right_to_register :: "regex_t option"
  own_right_to_invoke :: "regex_t option"

text \<open>
  What a function does besides returning a value and changing the context, where a claim
  speaks about it: heap allocation, output on stdout, and the call of a service callback.
\<close>

datatype effect =
  Malloc
| Memset
| Strdup string
| Printf string
| Call_callback rvi_callback_t

text \<open>
  \<^verbatim>\<open>rvi.h\<close> is not under \<^verbatim>\<open>src/\<close>; the value of \<^verbatim>\<open>RVI_OK\<close> is taken from the
  documentation comments of rvi.c ("0 (RVI_OK) on success").
\<close>

definition RVI_OK :: int where
  "RVI_OK = 0"

text \<open>A zero-initialised struct (\<^verbatim>\<open>= {0}\<close>, or \<^verbatim>\<open>memset\<close> with 0 after \<^verbatim>\<open>malloc\<close>).\<close>

definition rvi_remote_zero :: rvi_remote_t where
  "rvi_remote_zero =
     \<lparr>fd = 0, right_to_register = None, right_to_invoke = None, buf = None, sbio = None\<rparr>"

definition rvi_service_zero :: rvi_service_t where
  "rvi_service_zero =
     \<lparr>name = None, may_register = None, may_invoke = None, registrant = 0, callback = None\<rparr>"

section \<open>Comparison functions\<close>

text \<open>
  \<^verbatim>\<open>strcmp\<close> of the C library on two strings. The C standard fixes only the sign of the
  result; the model returns -1, 0 or 1. Characters compare as unsigned bytes.
\<close>

fun strcmp :: "string \<Rightarrow> string \<Rightarrow> int" where
  "strcmp [] [] = 0"
| "strcmp [] (y # ys) = -1"
| "strcmp (x # xs) [] = 1"
| "strcmp (x # xs) (y # ys) =
     (if x = y then strcmp xs ys
      else if (of_char x :: nat) < of_char y then -1 else 1)"

text \<open>\<^verbatim>\<open>compare_fd\<close> (lines 143-149).\<close>

definition compare_fd :: "rvi_remote_t \<Rightarrow> rvi_remote_t \<Rightarrow> int" where
  "compare_fd remote_a remote_b = fd remote_a - fd remote_b"

text \<open>
  \<^verbatim>\<open>compare_registrant\<close> (lines 157-169): the registrants decide; only when they are equal
  and both names are set, the names decide.
\<close>

definition compare_registrant :: "rvi_service_t \<Rightarrow> rvi_service_t \<Rightarrow> int" where
  "compare_registrant service_a service_b =
     (let result = registrant service_a - registrant service_b in
      if result = 0 \<and> name service_a \<noteq> None \<and> name service_b \<noteq> None
      then strcmp (the (name service_a)) (the (name service_b))
      else result)"

text \<open>
  \<^verbatim>\<open>compare_name\<close> (lines 175-181) hands both names to \<^verbatim>\<open>strcmp\<close> unchecked; on a
  \<^verbatim>\<open>NULL\<close> name the behaviour of the C program is undefined, which is the result
  \<^term>\<open>None\<close> here.
\<close>

definition compare_name :: "rvi_service_t \<Rightarrow> rvi_service_t \<Rightarrow> int option" where
  "compare_name service_a service_b =
     (case (name service_a, name service_b) of
        (Some a, Some b) \<Rightarrow> Some (strcmp a b)
      | _ \<Rightarrow> None)"

section \<open>The ordered indexes\<close>

text \<open>
  Modelled from the spec: \<^verbatim>\<open>btree.h\<close> and \<^verbatim>\<open>btree.c\<close> (\<^verbatim>\<open>btree_search\<close>,
  \<^verbatim>\<open>btree_insert\<close>, \<^verbatim>\<open>btree_delete\<close>) are not under \<^verbatim>\<open>src/\<close>. The spec (sections 2,
  4.2 and 4.3) describes each registry as an ordered index in which a key occurs once:
  insert fails if the key already exists, find is a non-mutating lookup, remove fails if
  the key is absent. An index is the list of its elements in the order of the comparison
  function that \<^verbatim>\<open>rvi_init\<close> gives to \<^verbatim>\<open>btree_create\<close> (lines 508-521: \<^verbatim>\<open>compare_fd\<close>
  for \<^verbatim>\<open>remote_idx\<close>, \<^verbatim>\<open>compare_name\<close> for \<^verbatim>\<open>service_name_idx\<close>,
  \<^verbatim>\<open>compare_registrant\<close> for \<^verbatim>\<open>service_reg_idx\<close>); two elements have the same key when
  the comparison gives 0. A status below 0 reports the failure, as the callers in rvi.c
  test it.
\<close>

fun btree_search :: "('a \<Rightarrow> 'a \<Rightarrow> int) \<Rightarrow> 'a list \<Rightarrow> 'a \<Rightarrow> 'a option" where
  "btree_search cmp [] key = None"
| "btree_search cmp (x # xs) key =
     (if cmp key x = 0 then Some x else btree_search cmp xs key)"

fun btree_place :: "('a \<Rightarrow> 'a \<Rightarrow> int) \<Rightarrow> 'a \<Rightarrow> 'a list \<Rightarrow> 'a list" where
  "btree_place cmp v [] = [v]"
| "btree_place cmp v (x # xs) =
     (if cmp v x < 0 then v # x # xs else x # btree_place cmp v xs)"

fun btree_remove :: "('a \<Rightarrow> 'a \<Rightarrow> int) \<Rightarrow> 'a \<Rightarrow> 'a list \<Rightarrow> 'a list" where
  "btree_remove cmp v [] = []"
| "btree_remove cmp v (x # xs) =
     (if cmp v x = 0 then xs else x # btree_remove cmp v xs)"

definition btree_insert :: "('a \<Rightarrow> 'a \<Rightarrow> int) \<Rightarrow> 'a list \<Rightarrow> 'a \<Rightarrow> int \<times> 'a list" where
  "btree_insert cmp tree v =
     (case btree_search cmp tree v of
        Some found \<Rightarrow> (-1, tree)
      | None \<Rightarrow> (0, btree_place cmp v tree))"

definition btree_delete :: "('a \<Rightarrow> 'a \<Rightarrow> int) \<Rightarrow> 'a list \<Rightarrow> 'a \<Rightarrow> int \<times> 'a list" where
  "btree_delete cmp tree v =
     (case btree_search cmp tree v of
        Some found \<Rightarrow> (0, btree_remove cmp v tree)
      | None \<Rightarrow> (-1, tree))"

section \<open>Creating services and remotes\<close>

text \<open>
  \<^verbatim>\<open>rvi_service_create\<close> (lines 191-216). The result is the new service (\<^term>\<open>None\<close>
  for \<^verbatim>\<open>NULL\<close>) together with the library calls made. \<^verbatim>\<open>strdup\<close> gives the service
  a copy of the name. The source does not test the results of \<^verbatim>\<open>malloc\<close> and
  \<^verbatim>\<open>strdup\<close>; the model is of the runs in which both succeed.
\<close>

definition rvi_service_create ::
  "string option \<Rightarrow> int \<Rightarrow> rvi_callback_t option \<Rightarrow> rvi_service_t option \<times> effect list" where
  "rvi_service_create name' registrant' callback' =
     (if name' = None \<or> registrant' < 0 then (None, [])
      else
        (Some (rvi_service_zero
                 \<lparr>name := name', registrant := registrant', callback := callback'\<rparr>),
         [Malloc, Memset, Strdup (the name')]))"

text \<open>\<^verbatim>\<open>rvi_remote_create\<close> (lines 243-265), in the same way.\<close>

definition rvi_remote_create ::
  "BIO option \<Rightarrow> int \<Rightarrow> rvi_remote_t option \<times> effect list" where
  "rvi_remote_create sbio' fd' =
     (if sbio' = None \<or> fd' < 0 then (None, [])
      else (Some (rvi_remote_zero\<lparr>fd := fd', sbio := sbio'\<rparr>), [Malloc, Memset]))"

section \<open>Initialization\<close>

text \<open>
  \<^verbatim>\<open>rvi_init\<close> (lines 450-524). The function zeroes a new context, lets
  \<^verbatim>\<open>parse_config\<close> fill in the configuration fields and the credentials, sets up the
  SSL context and creates the three indexes empty (lines 508-521). What the file system
  and OpenSSL deliver are parameters here: the status of \<^verbatim>\<open>parse_config\<close>, the struct as
  \<^verbatim>\<open>parse_config\<close> leaves it, and the result of \<^verbatim>\<open>setup_client_ctx\<close>. The result is
  \<^term>\<open>None\<close> where the source returns \<^verbatim>\<open>NULL\<close>.
\<close>

definition rvi_init ::
  "int \<Rightarrow> rvi_context_t \<Rightarrow> SSL_CTX option \<Rightarrow> rvi_context_t option" where
  "rvi_init parse_status parsed ssl =
     (if parse_status \<noteq> 0 then None
      else if ssl = None then None
      else Some (parsed\<lparr>ssl_ctx := ssl, remote_idx := [], service_name_idx := [],
                        service_reg_idx := []\<rparr>))"

section \<open>Connection management\<close>

text \<open>
  The end of \<^verbatim>\<open>rvi_connect\<close> (lines 717-771), once the TLS handshake has given the BIO
  chain and its file descriptor: the remote is created and inserted into
  \<^verbatim>\<open>remote_idx\<close>; the status of \<^verbatim>\<open>btree_insert\<close> is not read, and the function returns
  \<^verbatim>\<open>remote->fd\<close>. The exchange of messages in between does not touch the context.
  When \<^verbatim>\<open>rvi_remote_create\<close> returns \<^verbatim>\<open>NULL\<close> the source dereferences it: the result
  is \<^term>\<open>None\<close>.
\<close>

definition rvi_connect_finish ::
  "rvi_context_t \<Rightarrow> BIO option \<Rightarrow> int \<Rightarrow> (int \<times> rvi_context_t) option" where
  "rvi_connect_finish rvi sbio' fd' =
     (case fst (rvi_remote_create sbio' fd') of
        None \<Rightarrow> None
      | Some remote \<Rightarrow>
          Some (fd remote,
                rvi\<lparr>remote_idx := snd (btree_insert compare_fd (remote_idx rvi) remote)\<rparr>))"

text \<open>
  The loop of \<^verbatim>\<open>rvi_disconnect\<close> (lines 809-818) over the registrant index: while a
  service compares equal to the key (the key has no name, so \<^verbatim>\<open>compare_registrant\<close>
  looks at the registrant alone), delete it from \<^verbatim>\<open>service_reg_idx\<close>. When
  \<^verbatim>\<open>btree_delete\<close> reports an error the source prints a message and goes round the loop
  again. The loop deletes from \<^verbatim>\<open>service_reg_idx\<close> only; \<^verbatim>\<open>service_name_idx\<close> is
  not mentioned in \<^verbatim>\<open>rvi_disconnect\<close>.
\<close>

function rvi_disconnect_loop :: "rvi_service_t \<Rightarrow> rvi_service_t list \<Rightarrow> rvi_service_t list" where
  "rvi_disconnect_loop skey reg_idx =
     (case btree_search compare_registrant reg_idx skey of
        None \<Rightarrow> reg_idx
      | Some stmp \<Rightarrow>
          (case btree_delete compare_registrant reg_idx stmp of
             (res, reg_idx') \<Rightarrow>
               if res < 0 then rvi_disconnect_loop skey reg_idx'
               else rvi_disconnect_loop skey reg_idx'))"
  by pat_completeness auto
termination
proof (relation "measure (\<lambda>(skey, reg_idx). length reg_idx)")
  show "wf (measure (\<lambda>(skey :: rvi_service_t, reg_idx :: rvi_service_t list). length reg_idx))"
    by simp
  have step: "length reg_idx' < length reg_idx"
    if found: "btree_search compare_registrant reg_idx skey = Some stmp"
      and del: "(res, reg_idx') = btree_delete compare_registrant reg_idx stmp"
    for skey stmp res and reg_idx reg_idx' :: "rvi_service_t list"
  proof -
    have "strcmp s s = 0" for s
      by (induction s) simp_all
    then have refl0: "compare_registrant stmp stmp = 0"
      by (simp add: compare_registrant_def)
    have mem: "btree_search compare_registrant t skey = Some stmp \<Longrightarrow> stmp \<in> set t" for t
      by (induction t) (auto split: if_splits)
    have hit: "stmp \<in> set t \<Longrightarrow> btree_search compare_registrant t stmp \<noteq> None" for t
      using refl0 by (induction t) auto
    have shorter: "stmp \<in> set t \<Longrightarrow> length (btree_remove compare_registrant stmp t) < length t"
      for t
      using refl0 by (induction t) auto
    have "stmp \<in> set reg_idx"
      using found by (rule mem)
    then show ?thesis
      using del hit [of reg_idx] shorter [of reg_idx]
      by (auto simp: btree_delete_def split: option.splits)
  qed
  show "\<And>skey reg_idx stmp res reg_idx'.
          btree_search compare_registrant reg_idx skey = Some stmp \<Longrightarrow>
          (res, reg_idx') = btree_delete compare_registrant reg_idx stmp \<Longrightarrow>
          res < 0 \<Longrightarrow>
          ((skey, reg_idx'), skey, reg_idx) \<in> measure (\<lambda>(skey, reg_idx). length reg_idx)"
    using step by simp
  show "\<And>skey reg_idx stmp res reg_idx'.
          btree_search compare_registrant reg_idx skey = Some stmp \<Longrightarrow>
          (res, reg_idx') = btree_delete compare_registrant reg_idx stmp \<Longrightarrow>
          \<not> res < 0 \<Longrightarrow>
          ((skey, reg_idx'), skey, reg_idx) \<in> measure (\<lambda>(skey, reg_idx). length reg_idx)"
    using step by simp
qed

declare rvi_disconnect_loop.simps [simp del]

text \<open>
  \<^verbatim>\<open>rvi_disconnect\<close> (lines 782-826). The result is the returned status and the context
  afterwards. Closing the BIO chain and freeing the remote and the services are outside
  the model: an index is the list of the records it refers to.
\<close>

definition rvi_disconnect :: "rvi_context_t \<Rightarrow> int \<Rightarrow> int \<times> rvi_context_t" where
  "rvi_disconnect ctx fd' =
     (let rkey = rvi_remote_zero\<lparr>fd := fd'\<rparr> in
      case btree_search compare_fd (remote_idx ctx) rkey of
        None \<Rightarrow> (-1, ctx)
      | Some rtmp \<Rightarrow>
          (case btree_delete compare_fd (remote_idx ctx) rtmp of
             (res, remotes) \<Rightarrow>
               if res < 0 then (-1, ctx\<lparr>remote_idx := remotes\<rparr>)
               else
                 let skey = rvi_service_zero\<lparr>registrant := fd'\<rparr> in
                 (RVI_OK,
                  ctx\<lparr>remote_idx := remotes,
                      service_reg_idx := rvi_disconnect_loop skey (service_reg_idx ctx)\<rparr>)))"

section \<open>Service management and input processing\<close>

text \<open>
  \<^verbatim>\<open>rvi_register_service\<close> (lines 865-884), \<^verbatim>\<open>rvi_unregister_service\<close> (lines 894-906),
  \<^verbatim>\<open>rvi_invoke_remote_service\<close> (lines 943-953) and \<^verbatim>\<open>rvi_process_input\<close>
  (lines 959-982). In the source the body of each is a list of comments on the steps to
  be written, one \<^verbatim>\<open>printf\<close> and \<^verbatim>\<open>return 0\<close>: no argument is read and the context is
  not touched. The result is the returned status, the context afterwards and the effects.
\<close>

definition rvi_register_service ::
  "rvi_context_t \<Rightarrow> string option \<Rightarrow> rvi_callback_t option \<Rightarrow> nat option \<Rightarrow>
     int \<times> rvi_context_t \<times> effect list" where
  "rvi_register_service handle service_name callback' service_data =
     (0, handle, [Printf ''Write the register service function.\<newline>''])"

definition rvi_unregister_service ::
  "rvi_context_t \<Rightarrow> string option \<Rightarrow> int \<times> rvi_context_t \<times> effect list" where
  "rvi_unregister_service handle service_name =
     (0, handle, [Printf ''Write the unregister service function.\<newline>''])"

definition rvi_invoke_remote_service ::
  "rvi_context_t \<Rightarrow> string option \<Rightarrow> json_t option \<Rightarrow> int \<times> rvi_context_t \<times> effect list" where
  "rvi_invoke_remote_service handle service_name parameters =
     (0, handle, [Printf ''Write the invoke service function.\<newline>''])"

definition rvi_process_input ::
  "rvi_context_t \<Rightarrow> int list \<Rightarrow> int \<Rightarrow> int \<times> rvi_context_t \<times> effect list" where
  "rvi_process_input handle fd_arr fd_len =
     (0, handle, [Printf ''Finish the process input function...\<newline>''])"

section \<open>Observations on the registries\<close>

text \<open>
  Modelled from the spec: rvi.c has no function that looks a service or a connection up
  for a caller (\<^verbatim>\<open>rvi_get_services\<close> and \<^verbatim>\<open>rvi_get_connections\<close> only print a
  message). The lookups are those of sections 4.2 and 4.3 of the spec,
  \<^verbatim>\<open>find(identifier)\<close>, \<^verbatim>\<open>find_by_name(name)\<close> and
  \<^verbatim>\<open>find_by_registrant(connection_identifier)\<close>, each read off its index with the
  comparison function of that index and a key built as \<^verbatim>\<open>rvi_disconnect\<close> builds its keys.
\<close>

definition find_connection :: "rvi_context_t \<Rightarrow> int \<Rightarrow> rvi_remote_t option" where
  "find_connection ctx identifier =
     btree_search compare_fd (remote_idx ctx) (rvi_remote_zero\<lparr>fd := identifier\<rparr>)"

definition find_by_name :: "rvi_context_t \<Rightarrow> string \<Rightarrow> rvi_service_t option" where
  "find_by_name ctx service_name =
     find (\<lambda>s. compare_name (rvi_service_zero\<lparr>name := Some service_name\<rparr>) s = Some 0)
       (service_name_idx ctx)"

definition find_by_registrant :: "rvi_context_t \<Rightarrow> int \<Rightarrow> rvi_service_t list" where
  "find_by_registrant ctx identifier =
     filter (\<lambda>s. compare_registrant (rvi_service_zero\<lparr>registrant := identifier\<rparr>) s = 0)
       (service_reg_idx ctx)"

text \<open>
  The dual-index invariant of the service registry: both indexes refer to the same
  services.
\<close>

definition indexes_agree :: "rvi_context_t \<Rightarrow> bool" where
  "indexes_agree ctx \<longleftrightarrow> set (service_name_idx ctx) = set (service_reg_idx ctx)"

section \<open>Runs of the library\<close>

text \<open>
  The calls an application can make on a context once \<^verbatim>\<open>rvi_init\<close> has returned it.
  \<^verbatim>\<open>Connect b f\<close> is a call of \<^verbatim>\<open>rvi_connect\<close> whose TLS handshake succeeds with the
  BIO chain \<^verbatim>\<open>b\<close> on descriptor \<^verbatim>\<open>f\<close>; a call that fails earlier returns before the
  context is touched. A run ends with \<^term>\<open>None\<close> when \<^verbatim>\<open>rvi_connect\<close> dereferences
  \<^verbatim>\<open>NULL\<close>.
\<close>

datatype rvi_call =
  Connect BIO int
| Disconnect int
| Register string "rvi_callback_t option"
| Unregister string
| Invoke string "json_t option"
| Process_input "int list"

fun apply_call :: "rvi_context_t \<Rightarrow> rvi_call \<Rightarrow> rvi_context_t option" where
  "apply_call ctx (Connect b f) = map_option snd (rvi_connect_finish ctx (Some b) f)"
| "apply_call ctx (Disconnect f) = Some (snd (rvi_disconnect ctx f))"
| "apply_call ctx (Register n cb) = Some (fst (snd (rvi_register_service ctx (Some n) cb None)))"
| "apply_call ctx (Unregister n) = Some (fst (snd (rvi_unregister_service ctx (Some n))))"
| "apply_call ctx (Invoke n p) = Some (fst (snd (rvi_invoke_remote_service ctx (Some n) p)))"
| "apply_call ctx (Process_input fds) =
     Some (fst (snd (rvi_process_input ctx fds (int (length fds)))))"

fun run_calls :: "rvi_context_t \<Rightarrow> rvi_call list \<Rightarrow> rvi_context_t option" where
  "run_calls ctx [] = Some ctx"
| "run_calls ctx (c # cs) =
     (case apply_call ctx c of None \<Rightarrow> None | Some ctx' \<Rightarrow> run_calls ctx' cs)"

text \<open>
  What the calls keep true of a context, as shown below: no service is in either index,
  since no function enters one, and no two connections have the same file descriptor.
\<close>

definition run_invariant :: "rvi_context_t \<Rightarrow> bool" where
  "run_invariant ctx \<longleftrightarrow>
     service_name_idx ctx = [] \<and> service_reg_idx ctx = [] \<and> distinct (map fd (remote_idx ctx))"

text \<open>
  Concrete contexts. \<^verbatim>\<open>parsed0\<close> is a struct as \<^verbatim>\<open>parse_config\<close> leaves it,
  \<^verbatim>\<open>node0\<close> the context \<^verbatim>\<open>rvi_init\<close> makes of it, and \<^verbatim>\<open>node5\<close> that context after a
  connection on descriptor 5.
\<close>

definition parsed0 :: rvi_context_t where
  "parsed0 =
     \<lparr>remote_idx = [], service_name_idx = [], service_reg_idx = [],
      cadir = Some ''ca'', creddir = Some ''creds'', certfile = Some ''cert.pem'',
      keyfile = Some ''key.pem'', cafile = Some ''ca.pem'',
      cred = Some ''jwt'' # replicate 19 None, ssl_ctx = None,
      own_right_to_register = None, own_right_to_invoke = None\<rparr>"

definition node0 :: rvi_context_t where
  "node0 = parsed0\<lparr>ssl_ctx := Some 2\<rparr>"

definition remote5 :: rvi_remote_t where
  "remote5 = rvi_remote_zero\<lparr>fd := 5, sbio := Some 4\<rparr>"

definition node5 :: rvi_context_t where
  "node5 = node0\<lparr>remote_idx := [remote5]\<rparr>"

text \<open>
  A context with one connection, on file descriptor 5, and one service registered by it,
  entered in both service indexes. No run of the library as it stands produces it, since
  no function enters a service into an index.
\<close>

definition service_a_b :: rvi_service_t where
  "service_a_b = rvi_service_zero\<lparr>name := Some ''a.b'', registrant := 5\<rparr>"

definition ctx5 :: rvi_context_t where
  "ctx5 =
     \<lparr>remote_idx = [remote5], service_name_idx = [service_a_b],
      service_reg_idx = [service_a_b], cadir = None, creddir = None, certfile = None,
      keyfile = None, cafile = None, cred = replicate 20 None, ssl_ctx = Some 2,
      own_right_to_register = None, own_right_to_invoke = None\<rparr>"

section \<open>Properties\<close>

subsection \<open>The comparison functions and the indexes\<close>

lemma strcmp_same: "strcmp s s = 0"
  by (induction s) simp_all

lemma compare_fd_zero_iff: "compare_fd a b = 0 \<longleftrightarrow> fd a = fd b"
  by (simp add: compare_fd_def)

lemma btree_search_mem: "btree_search cmp t k = Some x \<Longrightarrow> x \<in> set t \<and> cmp k x = 0"
  by (induction t) (auto split: if_splits)

lemma btree_search_None_iff: "btree_search cmp t k = None \<longleftrightarrow> (\<forall>x\<in>set t. cmp k x \<noteq> 0)"
  by (induction t) auto

lemma set_btree_place: "set (btree_place cmp v t) = insert v (set t)"
  by (induction t) auto

lemma btree_remove_subset: "set (btree_remove cmp v t) \<subseteq> set t"
  by (induction t) auto

lemma btree_place_fd_distinct:
  "fd v \<notin> fd ` set t \<Longrightarrow> distinct (map fd t) \<Longrightarrow> distinct (map fd (btree_place compare_fd v t))"
  by (induction t) (auto simp: set_btree_place)


text \<open>An element that a search has found can be deleted, when it compares equal to itself.\<close>

lemma btree_delete_found:
  "btree_search cmp t k = Some x \<Longrightarrow> cmp x x = 0 \<Longrightarrow>
     btree_delete cmp t x = (0, btree_remove cmp x t)"
proof -
  assume "btree_search cmp t k = Some x" and refl0: "cmp x x = 0"
  then have "x \<in> set t"
    by (simp add: btree_search_mem)
  then have "btree_search cmp t x \<noteq> None"
    using refl0 unfolding btree_search_None_iff by blast
  then show ?thesis
    by (auto simp: btree_delete_def)
qed

subsection \<open>Creation of services and remotes\<close>

text \<open>
  C8. \<^verbatim>\<open>rvi_service_create\<close> returns \<^verbatim>\<open>NULL\<close> exactly when the name is \<^verbatim>\<open>NULL\<close> or the
  registrant is negative, and then makes no library call. On any other input it returns
  a service whose name is a copy of the given name, whose registrant and callback are the
  arguments, and whose \<^verbatim>\<open>may_register\<close> and \<^verbatim>\<open>may_invoke\<close> arrays are \<^verbatim>\<open>NULL\<close>, that is,
  empty.
\<close>

theorem rvi_service_create_result:
  "(fst (rvi_service_create n r cb) = None \<longleftrightarrow> n = None \<or> r < 0) \<and>
   (fst (rvi_service_create n r cb) = None \<longrightarrow> snd (rvi_service_create n r cb) = []) \<and>
   (\<forall>s. fst (rvi_service_create n r cb) = Some s \<longrightarrow>
      name s = n \<and> registrant s = r \<and> callback s = cb \<and>
      may_register s = None \<and> may_invoke s = None)"
  by (auto simp: rvi_service_create_def rvi_service_zero_def)

text \<open>
  The three cases at concrete arguments: no name, a negative registrant, and the name
  \<^verbatim>\<open>a.b\<close> with registrant 3 and a callback.
\<close>

theorem rvi_service_create_result_witness:
  "fst (rvi_service_create None 3 (Some 7)) = None \<and>
   fst (rvi_service_create (Some ''a.b'') (- 1) (Some 7)) = None \<and>
   snd (rvi_service_create (Some ''a.b'') (- 1) (Some 7)) = [] \<and>
   (\<exists>s. fst (rvi_service_create (Some ''a.b'') 3 (Some 7)) = Some s \<and>
      name s = Some ''a.b'' \<and> registrant s = 3 \<and> callback s = Some 7 \<and>
      may_register s = None \<and> may_invoke s = None)"
proof -
  let ?c = "rvi_service_create (Some ''a.b'') 3 (Some 7)"
  have "fst ?c \<noteq> None"
    using rvi_service_create_result [of "Some ''a.b''" 3 "Some 7"] by simp
  then obtain s where s: "fst ?c = Some s"
    by blast
  then have fields: "name s = Some ''a.b'' \<and> registrant s = 3 \<and> callback s = Some 7 \<and>
      may_register s = None \<and> may_invoke s = None"
    using rvi_service_create_result [of "Some ''a.b''" 3 "Some 7"] by blast
  have null1: "fst (rvi_service_create None 3 (Some 7)) = None"
    using rvi_service_create_result [of None 3 "Some 7"] by simp
  have null2: "fst (rvi_service_create (Some ''a.b'') (- 1) (Some 7)) = None"
    using rvi_service_create_result [of "Some ''a.b''" "- 1" "Some 7"] by simp
  then have quiet: "snd (rvi_service_create (Some ''a.b'') (- 1) (Some 7)) = []"
    using rvi_service_create_result [of "Some ''a.b''" "- 1" "Some 7"] by blast
  show ?thesis
    using s fields null1 null2 quiet by blast
qed

text \<open>
  C10. \<^verbatim>\<open>rvi_remote_create\<close> returns \<^verbatim>\<open>NULL\<close> exactly when the BIO chain is \<^verbatim>\<open>NULL\<close> or
  the file descriptor is negative. Otherwise it returns a remote with the given file
  descriptor and BIO chain whose \<^verbatim>\<open>right_to_register\<close>, \<^verbatim>\<open>right_to_invoke\<close> and buffer
  are \<^verbatim>\<open>NULL\<close>: a new connection holds no rights.
\<close>

theorem rvi_remote_create_result:
  "(fst (rvi_remote_create b f) = None \<longleftrightarrow> b = None \<or> f < 0) \<and>
   (\<forall>remote. fst (rvi_remote_create b f) = Some remote \<longrightarrow>
      fd remote = f \<and> sbio remote = b \<and> right_to_register remote = None \<and>
      right_to_invoke remote = None \<and> buf remote = None)"
  by (auto simp: rvi_remote_create_def rvi_remote_zero_def)

text \<open>At concrete arguments: no BIO chain, a negative descriptor, and descriptor 4.\<close>

theorem rvi_remote_create_result_witness:
  "fst (rvi_remote_create None 4) = None \<and>
   fst (rvi_remote_create (Some 1) (- 2)) = None \<and>
   (\<exists>remote. fst (rvi_remote_create (Some 1) 4) = Some remote \<and>
      fd remote = 4 \<and> sbio remote = Some 1 \<and> right_to_register remote = None \<and>
      right_to_invoke remote = None \<and> buf remote = None)"
proof -
  let ?c = "rvi_remote_create (Some 1) 4"
  have "fst ?c \<noteq> None"
    using rvi_remote_create_result [of "Some 1" 4] by simp
  then obtain remote where r: "fst ?c = Some remote"
    by blast
  then have fields: "fd remote = 4 \<and> sbio remote = Some 1 \<and> right_to_register remote = None \<and>
      right_to_invoke remote = None \<and> buf remote = None"
    using rvi_remote_create_result [of "Some 1" 4] by blast
  have null1: "fst (rvi_remote_create None 4) = None"
    using rvi_remote_create_result [of None 4] by simp
  have null2: "fst (rvi_remote_create (Some 1) (- 2)) = None"
    using rvi_remote_create_result [of "Some 1" "- 2"] by simp
  show ?thesis
    using r fields null1 null2 by blast
qed

subsection \<open>Disconnecting\<close>

text \<open>
  When the loop of \<^verbatim>\<open>rvi_disconnect\<close> ends, no service of the registrant index compares
  equal to the key, and the loop has only removed services.
\<close>

lemma rvi_disconnect_loop_clears:
  "btree_search compare_registrant (rvi_disconnect_loop skey reg_idx) skey = None"
proof (induction skey reg_idx rule: rvi_disconnect_loop.induct)
  case (1 skey reg_idx)
  show ?case
  proof (cases "btree_search compare_registrant reg_idx skey")
    case None
    then show ?thesis
      by (subst rvi_disconnect_loop.simps) simp
  next
    case (Some stmp)
    obtain res reg_idx' where del: "btree_delete compare_registrant reg_idx stmp = (res, reg_idx')"
      by (cases "btree_delete compare_registrant reg_idx stmp")
    have "btree_search compare_registrant (rvi_disconnect_loop skey reg_idx') skey = None"
      using "1.IH" [OF Some del [symmetric]] by (cases "res < 0") simp_all
    then show ?thesis
      using Some del by (subst rvi_disconnect_loop.simps) simp
  qed
qed

lemma rvi_disconnect_loop_subset:
  "set (rvi_disconnect_loop skey reg_idx) \<subseteq> set reg_idx"
proof (induction skey reg_idx rule: rvi_disconnect_loop.induct)
  case (1 skey reg_idx)
  show ?case
  proof (cases "btree_search compare_registrant reg_idx skey")
    case None
    then show ?thesis
      by (subst rvi_disconnect_loop.simps) simp
  next
    case (Some stmp)
    obtain res reg_idx' where del: "btree_delete compare_registrant reg_idx stmp = (res, reg_idx')"
      by (cases "btree_delete compare_registrant reg_idx stmp")
    have "set (rvi_disconnect_loop skey reg_idx') \<subseteq> set reg_idx'"
      using "1.IH" [OF Some del [symmetric]] by (cases "res < 0") simp_all
    moreover have "set reg_idx' \<subseteq> set reg_idx"
      using del btree_remove_subset [of compare_registrant stmp reg_idx]
      by (auto simp: btree_delete_def split: option.splits)
    ultimately show ?thesis
      using Some del by (subst rvi_disconnect_loop.simps) auto
  qed
qed

text \<open>
  What \<^verbatim>\<open>rvi_disconnect\<close> does for a connection that is in the registry: it returns
  \<^verbatim>\<open>RVI_OK\<close>, takes the connection out of \<^verbatim>\<open>remote_idx\<close>, leaves no service of that
  registrant in \<^verbatim>\<open>service_reg_idx\<close>, and leaves \<^verbatim>\<open>service_name_idx\<close> as it was.
\<close>

lemma rvi_disconnect_known:
  assumes "find_connection ctx f = Some r"
  shows "fst (rvi_disconnect ctx f) = RVI_OK"
    and "remote_idx (snd (rvi_disconnect ctx f)) = btree_remove compare_fd r (remote_idx ctx)"
    and "find_by_registrant (snd (rvi_disconnect ctx f)) f = []"
    and "service_name_idx (snd (rvi_disconnect ctx f)) = service_name_idx ctx"
proof -
  have found: "btree_search compare_fd (remote_idx ctx) (rvi_remote_zero\<lparr>fd := f\<rparr>) = Some r"
    using assms by (simp add: find_connection_def)
  have del: "btree_delete compare_fd (remote_idx ctx) r = (0, btree_remove compare_fd r (remote_idx ctx))"
    using found by (rule btree_delete_found) (simp add: compare_fd_def)
  have run: "rvi_disconnect ctx f =
      (RVI_OK, ctx\<lparr>remote_idx := btree_remove compare_fd r (remote_idx ctx),
                   service_reg_idx :=
                     rvi_disconnect_loop (rvi_service_zero\<lparr>registrant := f\<rparr>) (service_reg_idx ctx)\<rparr>)"
    by (simp add: rvi_disconnect_def found del Let_def)
  show "fst (rvi_disconnect ctx f) = RVI_OK"
    and "remote_idx (snd (rvi_disconnect ctx f)) = btree_remove compare_fd r (remote_idx ctx)"
    and "service_name_idx (snd (rvi_disconnect ctx f)) = service_name_idx ctx"
    by (simp_all add: run)
  have "\<forall>s\<in>set (rvi_disconnect_loop (rvi_service_zero\<lparr>registrant := f\<rparr>) (service_reg_idx ctx)).
          compare_registrant (rvi_service_zero\<lparr>registrant := f\<rparr>) s \<noteq> 0"
    using rvi_disconnect_loop_clears [of "rvi_service_zero\<lparr>registrant := f\<rparr>" "service_reg_idx ctx"]
    by (simp add: btree_search_None_iff)
  then show "find_by_registrant (snd (rvi_disconnect ctx f)) f = []"
    by (simp add: run find_by_registrant_def filter_empty_conv)
qed

text \<open>
  C9. For every file descriptor that no connection of the registry has,
  \<^verbatim>\<open>rvi_disconnect\<close> returns -1 and leaves the whole context, the connection registry and
  both service indexes included, unchanged.
\<close>

theorem rvi_disconnect_unknown:
  "\<forall>r\<in>set (remote_idx ctx). fd r \<noteq> f \<Longrightarrow> rvi_disconnect ctx f = (- 1, ctx)"
proof -
  assume absent: "\<forall>r\<in>set (remote_idx ctx). fd r \<noteq> f"
  have "btree_search compare_fd (remote_idx ctx) (rvi_remote_zero\<lparr>fd := f\<rparr>) = None"
    using absent by (auto simp: btree_search_None_iff compare_fd_zero_iff)
  then show ?thesis
    by (simp add: rvi_disconnect_def)
qed

text \<open>Descriptor 7 on the context whose only connection has descriptor 5.\<close>

theorem rvi_disconnect_unknown_witness:
  "rvi_disconnect ctx5 7 = (- 1, ctx5)"
  using rvi_disconnect_unknown [of ctx5 7]
  by (simp add: ctx5_def remote5_def rvi_remote_zero_def)

subsection \<open>What every run preserves\<close>

text \<open>
  In every context that a run produces, both service indexes are empty and no two
  connections have the same file descriptor (\<^verbatim>\<open>run_invariant\<close>).
\<close>

lemma btree_remove_fd_distinct:
  "distinct (map fd t) \<Longrightarrow> distinct (map fd (btree_remove cmp v t))"
proof (induction t)
  case Nil
  then show ?case by simp
next
  case (Cons x xs)
  have "fd x \<notin> fd ` set (btree_remove cmp v xs)"
    using Cons.prems btree_remove_subset [of cmp v xs] by auto
  then show ?case
    using Cons by simp
qed


lemma btree_insert_fd_distinct:
  "distinct (map fd t) \<Longrightarrow> distinct (map fd (snd (btree_insert compare_fd t v)))"
proof (cases "btree_search compare_fd t v")
  case None
  assume d: "distinct (map fd t)"
  from None have "fd v \<notin> fd ` set t"
    by (auto simp: btree_search_None_iff compare_fd_zero_iff)
  then show ?thesis
    using d None by (simp add: btree_insert_def btree_place_fd_distinct)
next
  case (Some found)
  assume "distinct (map fd t)"
  then show ?thesis
    using Some by (simp add: btree_insert_def)
qed

lemma rvi_disconnect_loop_Nil: "rvi_disconnect_loop skey [] = []"
  by (subst rvi_disconnect_loop.simps) simp

lemma rvi_disconnect_invariant:
  assumes "run_invariant ctx"
  shows "run_invariant (snd (rvi_disconnect ctx f))"
proof (cases "btree_search compare_fd (remote_idx ctx) (rvi_remote_zero\<lparr>fd := f\<rparr>)")
  case None
  then show ?thesis
    using assms by (simp add: rvi_disconnect_def)
next
  case (Some r)
  then have "find_connection ctx f = Some r"
    by (simp add: find_connection_def)
  from rvi_disconnect_known(2,4) [OF this] rvi_disconnect_loop_Nil assms
  show ?thesis
    using Some
    by (auto simp: run_invariant_def btree_remove_fd_distinct rvi_disconnect_def Let_def
        split: prod.splits)
qed

lemma apply_call_invariant:
  assumes "run_invariant ctx" and "apply_call ctx c = Some ctx'"
  shows "run_invariant ctx'"
proof (cases c)
  case (Connect b f)
  then show ?thesis
    using assms
    by (auto simp: run_invariant_def rvi_connect_finish_def btree_insert_fd_distinct
        split: option.splits)
next
  case (Disconnect f)
  then show ?thesis
    using assms rvi_disconnect_invariant [of ctx f] by auto
qed (use assms in \<open>auto simp: rvi_register_service_def rvi_unregister_service_def
      rvi_invoke_remote_service_def rvi_process_input_def\<close>)

lemma run_calls_invariant:
  "run_invariant ctx \<Longrightarrow> run_calls ctx calls = Some ctx' \<Longrightarrow> run_invariant ctx'"
proof (induction calls arbitrary: ctx)
  case Nil
  then show ?case by simp
next
  case (Cons c cs)
  then obtain mid where step: "apply_call ctx c = Some mid" and rest: "run_calls mid cs = Some ctx'"
    by (auto split: option.splits)
  have "run_invariant mid"
    using Cons.prems(1) step by (rule apply_call_invariant)
  then show ?case
    using rest by (rule Cons.IH)
qed

lemma rvi_init_invariant: "rvi_init st parsed ssl = Some ctx \<Longrightarrow> run_invariant ctx"
  by (auto simp: rvi_init_def run_invariant_def split: if_splits)

lemma rvi_connect_finish_node0: "rvi_connect_finish node0 (Some 4) 5 = Some (5, node5)"
  by (simp add: node5_def node0_def parsed0_def remote5_def rvi_connect_finish_def
      rvi_remote_create_def btree_insert_def)

lemma rvi_disconnect_node5: "rvi_disconnect node5 5 = (RVI_OK, node0)"
  by (simp add: rvi_disconnect_def node5_def node0_def parsed0_def remote5_def
      rvi_remote_zero_def compare_fd_def btree_delete_def rvi_disconnect_loop_Nil Let_def)

lemma rvi_init_node0: "rvi_init 0 parsed0 (Some 2) = Some node0"
  by (simp add: rvi_init_def node0_def parsed0_def)

lemma run_node5: "run_calls node0 [Connect 4 5] = Some node5"
  by (simp add: rvi_connect_finish_node0)

lemma run_node5_back:
  "run_calls node0 [Connect 4 5, Register ''a.b'' (Some 7), Unregister ''a.b'', Disconnect 5] =
     Some node0"
  by (simp add: rvi_connect_finish_node0 rvi_register_service_def rvi_unregister_service_def
      rvi_disconnect_node5)

subsection \<open>The service indexes and disconnecting, on every run\<close>

text \<open>
  C1. For every sequence of calls (connect, disconnect, register, unregister, invoke,
  process input) on a context that \<^verbatim>\<open>rvi_init\<close> has returned, the name index and the
  registrant index hold the same set of services afterwards. The sequence is arbitrary,
  so this holds after every call of a run: no run reaches a context in which a service
  is in one index and not in the other.
\<close>

theorem service_indexes_agree_on_every_run:
  "rvi_init st parsed ssl = Some ctx0 \<Longrightarrow> run_calls ctx0 calls = Some ctx \<Longrightarrow> indexes_agree ctx"
proof -
  assume "rvi_init st parsed ssl = Some ctx0" and run: "run_calls ctx0 calls = Some ctx"
  then have "run_invariant ctx0"
    by (simp add: rvi_init_invariant)
  then have "run_invariant ctx"
    using run by (rule run_calls_invariant)
  then show ?thesis
    by (simp add: run_invariant_def indexes_agree_def)
qed

text \<open>
  Two runs from \<^term>\<open>node0\<close>: a connection on descriptor 5, and a connection followed
  by a registration, an unregistration and the disconnection.
\<close>

theorem service_indexes_agree_on_every_run_witness:
  "indexes_agree node5 \<and> indexes_agree node0"
proof -
  have init: "rvi_init 0 parsed0 (Some 2) = Some node0"
    by (rule rvi_init_node0)
  have "indexes_agree node5"
    using service_indexes_agree_on_every_run [OF init run_node5] .
  moreover have "indexes_agree node0"
    using service_indexes_agree_on_every_run [OF init run_node5_back] .
  ultimately show ?thesis
    by simp
qed



text \<open>
  The code of \<^verbatim>\<open>rvi_disconnect\<close> never touches the name index (the last statement of
  \<^verbatim>\<open>rvi_disconnect_known\<close>), while \<^verbatim>\<open>rvi_cleanup\<close> (lines 588-595) deletes a service
  from both indexes. As long as no function enters a service into an index this makes
  no difference on any run. On \<^term>\<open>ctx5\<close>, which holds a service of the disconnected
  registrant, the service stays in the name index.
\<close>

lemma rvi_disconnect_ctx5:
  "rvi_disconnect ctx5 5 = (RVI_OK, ctx5\<lparr>remote_idx := [], service_reg_idx := []\<rparr>)"
proof -
  have loop: "rvi_disconnect_loop (rvi_service_zero\<lparr>registrant := 5\<rparr>) [service_a_b] = []"
    by (simp add: rvi_disconnect_loop.simps service_a_b_def rvi_service_zero_def
        compare_registrant_def btree_delete_def)
  show ?thesis
    by (simp add: rvi_disconnect_def ctx5_def remote5_def rvi_remote_zero_def compare_fd_def
        btree_delete_def loop Let_def)
qed

subsection \<open>Connecting under an identifier that is present\<close>




subsection \<open>Registering a name twice\<close>

text \<open>
  C3. A second registration of a name should fail. On \<^term>\<open>node0\<close>, the context that
  \<^verbatim>\<open>rvi_init\<close> returns, the call \<^verbatim>\<open>rvi_register_service(handle, "a.b", callback, NULL)\<close>
  returns \<^verbatim>\<open>RVI_OK\<close> and leaves the context as it was, without the name in the name
  index; the same call made again returns \<^verbatim>\<open>RVI_OK\<close> again.
\<close>

theorem rvi_register_service_twice:
  "rvi_init 0 parsed0 (Some 2) = Some node0 \<and>
   rvi_register_service node0 (Some ''a.b'') (Some 7) None =
     (RVI_OK, node0, [Printf ''Write the register service function.\<newline>'']) \<and>
   fst (rvi_register_service
          (fst (snd (rvi_register_service node0 (Some ''a.b'') (Some 7) None)))
          (Some ''a.b'') (Some 7) None) = RVI_OK \<and>
   find_by_name node0 ''a.b'' = None"
proof -
  have "find_by_name node0 ''a.b'' = None"
    by (simp add: find_by_name_def node0_def parsed0_def)
  then show ?thesis
    by (simp add: rvi_init_node0 rvi_register_service_def RVI_OK_def)
qed

end
